theory Spec2Isabelle
  imports Main "HOL-Library.Word"
begin

section \<open>The masking server (FME/masking\_server.py)\<close>

text \<open>
  A shallow embedding of \<^verbatim>\<open>masking_server.py\<close>: the request handler
  \<^verbatim>\<open>MaskingRequestHandler\<close>, and the start-up code \<^verbatim>\<open>run_server\<close> and
  \<^verbatim>\<open>main\<close>. The file system, the request target and the operating system's answer to
  \<^verbatim>\<open>bind\<close> are explicit arguments; what the program writes to a client is a value of
  type \<open>response\<close>; what the process does at start-up is a list of \<open>effect\<close>s; every
  \<^verbatim>\<open>raise\<close> is a value \<open>Inl e\<close> of a sum type.

  The calls into Python's standard library are modelled after CPython 3.11
  (\<^verbatim>\<open>urllib/parse.py\<close>, \<^verbatim>\<open>http/server.py\<close>, \<^verbatim>\<open>pathlib.py\<close>).
\<close>

subsection \<open>Text\<close>

text \<open>
  A Python \<^verbatim>\<open>str\<close> is a sequence of Unicode code points; file names and
  command-line arguments are such. Text that has come from or goes to the wire is Latin-1:
  one \<open>char\<close> per character, so a \<open>string\<close>. \<open>str\<close> reads a \<open>string\<close> as a
  Python \<^verbatim>\<open>str\<close>; \<open>encode_latin1\<close> is \<^verbatim>\<open>s.encode('latin-1', 'strict')\<close>,
  which raises on a code point above 255.
\<close>

type_synonym ustring = "nat list"

definition str :: "string \<Rightarrow> ustring" where
  "str s = map of_char s"

subsection \<open>Bytes and decimal numerals\<close>

type_synonym byte = "8 word"
type_synonym bytes = "byte list"

text \<open>\<^verbatim>\<open>str(n)\<close> for a non-negative integer: its decimal digits, most significant first.\<close>

definition digit_char :: "nat \<Rightarrow> char" where
  "digit_char d = ''0123456789'' ! d"

fun str_nat :: "nat \<Rightarrow> string" where
  "str_nat n = (if n < 10 then [digit_char n] else str_nat (n div 10) @ [digit_char (n mod 10)])"

declare str_nat.simps [simp del]

text \<open>Reading a decimal numeral back, as a client does with a \<^verbatim>\<open>Content-Length\<close> value.\<close>

definition digit_value :: "char \<Rightarrow> nat option" where
  "digit_value c = (let k = (of_char c :: nat) in if 48 \<le> k \<and> k \<le> 57 then Some (k - 48) else None)"

fun decimal_acc :: "nat \<Rightarrow> string \<Rightarrow> nat option" where
  "decimal_acc acc [] = Some acc"
| "decimal_acc acc (c # cs) =
     (case digit_value c of None \<Rightarrow> None | Some d \<Rightarrow> decimal_acc (10 * acc + d) cs)"

definition decimal_value :: "string \<Rightarrow> nat option" where
  "decimal_value s = (if s = [] then None else decimal_acc 0 s)"

subsection \<open>Exceptions\<close>

datatype exn =
    FileNotFoundError ustring
  | PermissionError
  | ValueError ustring
  | UnicodeEncodeError
  | OverflowError
  | OSError

definition encode_latin1 :: "ustring \<Rightarrow> exn + string" where
  "encode_latin1 s =
     (if list_all (\<lambda>c. c < 256) s then Inr (map char_of s) else Inl UnicodeEncodeError)"

definition bind_exn :: "exn + 'a \<Rightarrow> ('a \<Rightarrow> exn + 'b) \<Rightarrow> exn + 'b" where
  \<comment> \<open>run the next statement unless the last one raised\<close>
  "bind_exn m k = (case m of Inl e \<Rightarrow> Inl e | Inr x \<Rightarrow> k x)"

subsection \<open>Paths and the file system\<close>

text \<open>
  A \<^verbatim>\<open>pathlib.Path\<close> on POSIX: whether it is anchored at the root, and its
  components below the anchor.
\<close>

datatype Path = Path (absolute: bool) (parts: "ustring list")

definition name :: "Path \<Rightarrow> ustring" where
  \<comment> \<open>\<^verbatim>\<open>p.name\<close>: the final component, empty if there is none\<close>
  "name p = (if parts p = [] then [] else last (parts p))"

definition parent :: "Path \<Rightarrow> Path" where
  \<comment> \<open>\<^verbatim>\<open>p.parent\<close>\<close>
  "parent p = Path (absolute p) (butlast (parts p))"

definition joinpath :: "Path \<Rightarrow> ustring \<Rightarrow> Path" where
  \<comment> \<open>\<^verbatim>\<open>p / n\<close> for a single relative component \<open>n\<close>\<close>
  "joinpath p n = Path (absolute p) (parts p @ [n])"

fun join_slash :: "ustring list \<Rightarrow> ustring" where
  "join_slash [] = []"
| "join_slash [x] = x"
| "join_slash (x # y # ys) = x @ str ''/'' @ join_slash (y # ys)"

definition str_path :: "Path \<Rightarrow> ustring" where
  \<comment> \<open>\<^verbatim>\<open>str(p)\<close>\<close>
  "str_path p =
     (if absolute p then str ''/'' @ join_slash (parts p)
      else if parts p = [] then str ''.'' else join_slash (parts p))"

definition with_name :: "Path \<Rightarrow> ustring \<Rightarrow> exn + Path" where
  \<comment> \<open>\<^verbatim>\<open>p.with_name(n)\<close> for a valid component \<open>n\<close>: raises when \<open>p\<close> has no name\<close>
  "with_name p n =
     (if name p = [] then Inl (ValueError (str_path p @ str '' has an empty name''))
      else Inr (Path (absolute p) (butlast (parts p) @ [n])))"

text \<open>
  What the file system answers at a path when it is looked at:
  \<^item> \<open>Missing\<close>: \<^verbatim>\<open>stat\<close> fails with ENOENT, ENOTDIR, EBADF or ELOOP;
  \<^item> \<open>Inaccessible\<close>: \<^verbatim>\<open>stat\<close> fails with another error, such as EACCES when a
    directory on the way has lost its search permission;
  \<^item> \<open>Unreadable\<close>: \<^verbatim>\<open>stat\<close> succeeds, but the entry cannot be opened and read
    (its permission bits, or it is a directory);
  \<^item> \<open>Regular\<close>: a readable file with its bytes.

  \<^verbatim>\<open>Path.exists()\<close> returns false for the errors of the first kind and lets every
  other \<^verbatim>\<open>OSError\<close> of \<^verbatim>\<open>stat\<close> through.
\<close>

datatype node = Missing | Inaccessible | Unreadable | Regular bytes

type_synonym fs = "Path \<Rightarrow> node"

definition path_exists :: "fs \<Rightarrow> Path \<Rightarrow> exn + bool" where
  \<comment> \<open>\<^verbatim>\<open>p.exists()\<close>\<close>
  "path_exists f p =
     (case f p of
        Missing \<Rightarrow> Inr False
      | Inaccessible \<Rightarrow> Inl PermissionError
      | Unreadable \<Rightarrow> Inr True
      | Regular data \<Rightarrow> Inr True)"

definition read_bytes :: "fs \<Rightarrow> Path \<Rightarrow> exn + bytes" where
  \<comment> \<open>\<^verbatim>\<open>p.read_bytes()\<close>\<close>
  "read_bytes f p =
     (case f p of
        Missing \<Rightarrow> Inl (FileNotFoundError (str_path p))
      | Inaccessible \<Rightarrow> Inl PermissionError
      | Unreadable \<Rightarrow> Inl PermissionError
      | Regular data \<Rightarrow> Inr data)"

subsection \<open>Responses\<close>

text \<open>
  A response is either what the handler itself sends with \<^verbatim>\<open>send_response\<close>,
  \<^verbatim>\<open>send_header\<close>, \<^verbatim>\<open>end_headers\<close> and \<^verbatim>\<open>wfile.write\<close> (the status,
  the headers the handler adds, in order and as they are on the wire, and the body), or
  the error page that the library renders for \<^verbatim>\<open>send_error(code, message)\<close>.
  This is the library's behaviour for a request line that carries an HTTP/1.x version.

  \<^verbatim>\<open>send_header\<close> puts \<^verbatim>\<open>("%s: %s\r\n" % (keyword, value)).encode('latin-1', 'strict')\<close>
  into the header buffer, so it raises \<^verbatim>\<open>UnicodeEncodeError\<close> when the value has a
  character outside Latin-1. The buffer reaches the client only in \<^verbatim>\<open>end_headers\<close>.
\<close>

datatype response =
    Response nat "(string \<times> string) list" bytes
  | ErrorResponse nat string

fun status :: "response \<Rightarrow> nat" where
  "status (Response code hs b) = code"
| "status (ErrorResponse code msg) = code"

definition send_error :: "nat \<Rightarrow> string \<Rightarrow> response" where
  "send_error code message = ErrorResponse code message"

definition send_response :: "nat \<Rightarrow> response" where
  "send_response code = Response code [] []"

fun send_header :: "string \<Rightarrow> ustring \<Rightarrow> response \<Rightarrow> exn + response" where
  "send_header keyword v (Response code hs b) =
     (case encode_latin1 v of
        Inl e \<Rightarrow> Inl e
      | Inr w \<Rightarrow> Inr (Response code (hs @ [(keyword, w)]) b))"
| "send_header keyword v (ErrorResponse code msg) = Inr (ErrorResponse code msg)"

definition end_headers :: "response \<Rightarrow> response" where
  "end_headers r = r"

fun wfile_write :: "bytes \<Rightarrow> response \<Rightarrow> response" where
  "wfile_write data (Response code hs b) = Response code hs (b @ data)"
| "wfile_write data (ErrorResponse code msg) = ErrorResponse code msg"

definition header_values :: "string \<Rightarrow> response \<Rightarrow> string list" where
  \<comment> \<open>the values of all headers of that name that the handler sent\<close>
  "header_values keyword r =
     (case r of
        Response code hs b \<Rightarrow> map snd (filter (\<lambda>kv. fst kv = keyword) hs)
      | ErrorResponse code msg \<Rightarrow> [])"

fun body :: "response \<Rightarrow> bytes option" where
  "body (Response code hs b) = Some b"
| "body (ErrorResponse code msg) = None"

subsection \<open>The request handler\<close>

text \<open>The attributes that \<^verbatim>\<open>run_server\<close> sets on the server object.\<close>

record server =
  file_path :: "Path option"
  html_path :: Path
  static_dir :: Path
  server_address :: "string \<times> nat"

definition serve_masking_html :: "server \<Rightarrow> fs \<Rightarrow> exn + response" where
  "serve_masking_html srv f =
     (case read_bytes f (html_path srv) of
        Inl e \<Rightarrow> Inr (send_error 500 ''Failed to load Masking.html'')
      | Inr data \<Rightarrow>
          bind_exn (Inr (send_response 200)) (\<lambda>r.
          bind_exn (send_header ''Content-Type'' (str ''text/html; charset=utf-8'') r) (\<lambda>r.
          bind_exn (send_header ''Cache-Control'' (str ''no-store'') r) (\<lambda>r.
          bind_exn (send_header ''Content-Length'' (str (str_nat (length data))) r) (\<lambda>r.
          bind_exn (Inr (end_headers r)) (\<lambda>r.
          Inr (wfile_write data r)))))))"

definition serve_static_file :: "server \<Rightarrow> fs \<Rightarrow> ustring \<Rightarrow> ustring \<Rightarrow> exn + response" where
  "serve_static_file srv f nm content_type =
     (let fpath = joinpath (static_dir srv) nm in
      case path_exists f fpath of
        Inl e \<Rightarrow> Inr (send_error 500 ''Failed to load static file'')
      | Inr False \<Rightarrow> Inr (send_error 404 ''Not Found'')
      | Inr True \<Rightarrow>
     (case read_bytes f fpath of
        Inl e \<Rightarrow> Inr (send_error 500 ''Failed to load static file'')
      | Inr data \<Rightarrow>
          bind_exn (Inr (send_response 200)) (\<lambda>r.
          bind_exn (send_header ''Content-Type'' content_type r) (\<lambda>r.
          bind_exn (send_header ''Cache-Control'' (str ''no-store'') r) (\<lambda>r.
          bind_exn (send_header ''Content-Length'' (str (str_nat (length data))) r) (\<lambda>r.
          bind_exn (Inr (end_headers r)) (\<lambda>r.
          Inr (wfile_write data r))))))))"

definition serve_fits_file :: "server \<Rightarrow> fs \<Rightarrow> exn + response" where
  "serve_fits_file srv f =
     (case file_path srv of
        None \<Rightarrow> Inr (send_error 404 ''File not found'')
      | Some fpath \<Rightarrow>
         (case path_exists f fpath of
            Inl e \<Rightarrow> Inl e
          | Inr False \<Rightarrow> Inr (send_error 404 ''File not found'')
          | Inr True \<Rightarrow>
         (case read_bytes f fpath of
            Inl e \<Rightarrow> Inr (send_error 500 ''Failed to read file'')
          | Inr data \<Rightarrow>
              bind_exn (Inr (send_response 200)) (\<lambda>r.
              bind_exn (send_header ''Content-Type'' (str ''application/octet-stream'') r) (\<lambda>r.
              bind_exn (send_header ''Cache-Control'' (str ''no-store'') r) (\<lambda>r.
              bind_exn (send_header ''Content-Length'' (str (str_nat (length data))) r) (\<lambda>r.
              bind_exn (send_header ''X-Masking-File-Name'' (name fpath) r) (\<lambda>r.
              bind_exn (Inr (end_headers r)) (\<lambda>r.
              Inr (wfile_write data r))))))))))"

subsection \<open>\<^verbatim>\<open>urllib.parse.urlparse\<close>\<close>

text \<open>
  The request target \<^verbatim>\<open>self.path\<close> is a string of Latin-1 characters (the library
  decodes the request line as ISO-8859-1), which is what \<open>string\<close> holds.
  \<^verbatim>\<open>urlparse\<close> is followed step by step. The one step that is not written out is
  \<^verbatim>\<open>_check_bracketed_host\<close>, the validation of an IPv6 or IPvFuture literal between
  brackets in the authority: it is the parameter \<open>chk\<close>, which returns the message of the
  \<^verbatim>\<open>ValueError\<close> when the literal is refused. (\<^verbatim>\<open>_checknetloc\<close> never raises on
  Latin-1 text: NFKC normalisation of a Latin-1 character yields none of \<^verbatim>\<open>/?#@:\<close>.)
\<close>

record parse_result =
  scheme :: string
  netloc :: string
  path :: string
  params :: string
  query :: string
  fragment :: string

definition before :: "char \<Rightarrow> string \<Rightarrow> string" where
  \<comment> \<open>\<^verbatim>\<open>s.partition(c)[0]\<close>\<close>
  "before c s = takeWhile (\<lambda>x. x \<noteq> c) s"

definition after :: "char \<Rightarrow> string \<Rightarrow> string" where
  \<comment> \<open>\<^verbatim>\<open>s.partition(c)[2]\<close>\<close>
  "after c s = drop 1 (dropWhile (\<lambda>x. x \<noteq> c) s)"

definition c0_control_or_space :: "char \<Rightarrow> bool" where
  "c0_control_or_space c = ((of_char c :: nat) \<le> 32)"

definition unsafe_url_byte :: "char \<Rightarrow> bool" where
  \<comment> \<open>tab, carriage return, line feed\<close>
  "unsafe_url_byte c = ((of_char c :: nat) \<in> {9, 13, 10})"

definition scheme_chars :: string where
  "scheme_chars = ''abcdefghijklmnopqrstuvwxyzABCDEFGHIJKLMNOPQRSTUVWXYZ0123456789+-.''"

definition uses_params :: "string list" where
  "uses_params = [[], ''ftp'', ''hdl'', ''prospero'', ''http'', ''imap'',
     ''https'', ''shttp'', ''rtsp'', ''rtsps'', ''rtspu'', ''sip'',
     ''sips'', ''mms'', ''sftp'', ''tel'']"

definition ascii_alpha :: "char \<Rightarrow> bool" where
  \<comment> \<open>\<^verbatim>\<open>c.isascii() and c.isalpha()\<close>\<close>
  "ascii_alpha c = (let k = (of_char c :: nat) in (65 \<le> k \<and> k \<le> 90) \<or> (97 \<le> k \<and> k \<le> 122))"

definition ascii_lower :: "char \<Rightarrow> char" where
  "ascii_lower c = (let k = (of_char c :: nat) in if 65 \<le> k \<and> k \<le> 90 then char_of (k + 32) else c)"

definition split_scheme :: "string \<Rightarrow> string \<times> string" where
  \<comment> \<open>the scheme, when the text before the first colon is one, and the rest\<close>
  "split_scheme url =
     (let pre = before CHR '':'' url in
      if CHR '':'' \<in> set url \<and> pre \<noteq> [] \<and> ascii_alpha (hd url)
         \<and> list_all (\<lambda>c. c \<in> set scheme_chars) pre
      then (map ascii_lower pre, after CHR '':'' url)
      else ([], url))"

definition netloc_delim :: "char \<Rightarrow> bool" where
  "netloc_delim c = (c = CHR ''/'' \<or> c = CHR ''?'' \<or> c = CHR ''#'')"

definition splitnetloc :: "string \<Rightarrow> string \<times> string" where
  \<comment> \<open>\<^verbatim>\<open>_splitnetloc(url, 2)\<close>\<close>
  "splitnetloc url =
     (let rest = drop 2 url
      in (takeWhile (\<lambda>c. \<not> netloc_delim c) rest, dropWhile (\<lambda>c. \<not> netloc_delim c) rest))"

definition split_rest :: "string \<Rightarrow> string \<Rightarrow> string \<Rightarrow> parse_result" where
  \<comment> \<open>the fragment is cut off at the first \<^verbatim>\<open>#\<close>, then the query at the first \<^verbatim>\<open>?\<close>\<close>
  "split_rest sch nl url =
     (let fr = after CHR ''#'' url;
          url = before CHR ''#'' url;
          qu = after CHR ''?'' url;
          url = before CHR ''?'' url
      in \<lparr>scheme = sch, netloc = nl, path = url, params = [], query = qu, fragment = fr\<rparr>)"

definition urlsplit :: "(string \<Rightarrow> string option) \<Rightarrow> string \<Rightarrow> exn + parse_result" where
  "urlsplit chk url0 =
     (let url = dropWhile c0_control_or_space url0;
          url = filter (\<lambda>c. \<not> unsafe_url_byte c) url;
          (sch, url) = split_scheme url
      in if take 2 url = ''//'' then
           (let (nl, url) = splitnetloc url in
            if (CHR ''['' \<in> set nl) \<noteq> (CHR '']'' \<in> set nl)
            then Inl (ValueError (str ''Invalid IPv6 URL''))
            else if CHR ''['' \<in> set nl
            then (case chk (before CHR '']'' (after CHR ''['' nl)) of
                    Some msg \<Rightarrow> Inl (ValueError (str msg))
                  | None \<Rightarrow> Inr (split_rest sch nl url))
            else Inr (split_rest sch nl url))
         else Inr (split_rest sch [] url))"

definition splitparams :: "string \<Rightarrow> string \<times> string" where
  \<comment> \<open>\<^verbatim>\<open>_splitparams\<close>: cut at the first \<^verbatim>\<open>;\<close> of the last segment, if it has one\<close>
  "splitparams url =
     (let seg = rev (takeWhile (\<lambda>c. c \<noteq> CHR ''/'') (rev url));
          pre = take (length url - length seg) url
      in if CHR '';'' \<in> set seg then (pre @ before CHR '';'' seg, after CHR '';'' seg)
         else (url, []))"

definition urlparse :: "(string \<Rightarrow> string option) \<Rightarrow> string \<Rightarrow> exn + parse_result" where
  "urlparse chk url =
     (case urlsplit chk url of
        Inl e \<Rightarrow> Inl e
      | Inr r \<Rightarrow>
          if scheme r \<in> set uses_params \<and> CHR '';'' \<in> set (path r)
          then (let (url, ps) = splitparams (path r) in Inr (r\<lparr>path := url, params := ps\<rparr>))
          else Inr r)"

definition do_GET :: "(string \<Rightarrow> string option) \<Rightarrow> server \<Rightarrow> fs \<Rightarrow> string \<Rightarrow> exn + response" where
  "do_GET chk srv f self_path =
     (case urlparse chk self_path of
        Inl e \<Rightarrow> Inl e
      | Inr parsed \<Rightarrow>
          if path parsed = ''/fits.js''
          then serve_static_file srv f (str ''fits.js'') (str ''application/javascript; charset=utf-8'')
          else if path parsed = ''/file''
          then serve_fits_file srv f
          else if path parsed \<in> set [''/'', ''/index.html'']
          then serve_masking_html srv f
          else Inr (send_error 404 ''Not Found''))"

subsection \<open>Dispatch on the request method, and logging\<close>

text \<open>What the process does besides answering a client, in the order it does it.\<close>

datatype effect =
    Bind string int       \<comment> \<open>a listening socket is bound to this host and port\<close>
  | Print string          \<comment> \<open>a line on standard output\<close>
  | Stderr string         \<comment> \<open>text on standard error\<close>
  | BrowserOpen string    \<comment> \<open>\<^verbatim>\<open>webbrowser.open(url)\<close>\<close>
  | ShutdownLater int     \<comment> \<open>the daemon thread \<^verbatim>\<open>shutdown_later\<close> is started\<close>
  | ServeForever          \<comment> \<open>\<^verbatim>\<open>httpd.serve_forever()\<close> is entered\<close>

definition log_message :: "string \<Rightarrow> string list \<Rightarrow> effect list" where
  \<comment> \<open>the handler's override: it returns at once\<close>
  "log_message format args = []"

text \<open>
  The library logs every response through \<^verbatim>\<open>log_message\<close>:
  \<^verbatim>\<open>send_response\<close> calls \<^verbatim>\<open>log_request\<close>, and \<^verbatim>\<open>send_error\<close> calls
  \<^verbatim>\<open>log_error\<close> before it.
\<close>

definition log_request :: "string \<Rightarrow> nat \<Rightarrow> effect list" where
  "log_request requestline code =
     log_message ([CHR 0x22] @ ''%s'' @ [CHR 0x22] @ '' %s %s'') [requestline, str_nat code, ''-'']"

definition log_error :: "nat \<Rightarrow> string \<Rightarrow> effect list" where
  "log_error code message = log_message ''code %d, message %s'' [str_nat code, message]"

definition log_response :: "string \<Rightarrow> response \<Rightarrow> effect list" where
  "log_response requestline r =
     (case r of
        Response code hs b \<Rightarrow> log_request requestline code
      | ErrorResponse code msg \<Rightarrow> log_error code msg @ log_request requestline code)"

text \<open>\<^verbatim>\<open>repr\<close> of a Latin-1 string, as \<^verbatim>\<open>%r\<close> renders it.\<close>

definition printable :: "char \<Rightarrow> bool" where
  "printable c = (let k = (of_char c :: nat) in (32 \<le> k \<and> k < 127) \<or> (161 \<le> k \<and> k \<noteq> 173))"

definition hex_digit :: "nat \<Rightarrow> char" where
  "hex_digit d = ''0123456789abcdef'' ! d"

definition repr_char :: "char \<Rightarrow> char \<Rightarrow> string" where
  "repr_char q c =
     (let k = (of_char c :: nat) in
      if c = q \<or> k = 92 then [CHR 0x5C, c]
      else if k = 9 then [CHR 0x5C, CHR ''t'']
      else if k = 10 then [CHR 0x5C, CHR ''n'']
      else if k = 13 then [CHR 0x5C, CHR ''r'']
      else if \<not> printable c then [CHR 0x5C, CHR ''x'', hex_digit (k div 16), hex_digit (k mod 16)]
      else [c])"

definition repr :: "string \<Rightarrow> string" where
  "repr s =
     (let q = (if CHR 0x27 \<in> set s \<and> CHR 0x22 \<notin> set s then CHR 0x22 else CHR 0x27)
      in [q] @ concat (map (repr_char q) s) @ [q])"

text \<open>
  The attributes of \<^verbatim>\<open>MaskingRequestHandler\<close> whose name starts with \<^verbatim>\<open>do_\<close>: the
  class defines \<^verbatim>\<open>do_GET\<close>, and its base classes define none.
\<close>

definition do_methods :: "string list" where
  "do_methods = [''do_GET'']"

text \<open>
  What \<^verbatim>\<open>parse_request\<close> leaves in \<^verbatim>\<open>self.path\<close> for the target of the request
  line: a target that starts with two slashes has its leading slashes reduced to one
  (\<^verbatim>\<open>'/' + self.path.lstrip('/')\<close>).
\<close>

definition request_path :: "string \<Rightarrow> string" where
  "request_path target =
     (if take 2 target = ''//'' then ''/'' @ dropWhile (\<lambda>c. c = CHR ''/'') target else target)"

text \<open>
  \<^verbatim>\<open>BaseHTTPRequestHandler.handle_one_request\<close>, for a request line with an HTTP/1.x
  version that \<^verbatim>\<open>parse_request\<close> has accepted: \<open>command\<close> and \<open>target\<close> are its
  first two words. An exception that leaves the method is reported by
  \<^verbatim>\<open>socketserver\<close> on standard error, and the connection is closed without a response.
\<close>

definition handle_one_request ::
  "(string \<Rightarrow> string option) \<Rightarrow> server \<Rightarrow> fs \<Rightarrow> string \<Rightarrow> string \<Rightarrow> (exn + response) \<times> effect list" where
  "handle_one_request chk srv f command target =
     (let requestline = command @ '' '' @ target;
          self_path = request_path target;
          mname = ''do_'' @ command
      in if mname \<notin> set do_methods
         then (let r = send_error 501 (''Unsupported method ('' @ repr command @ '')'')
               in (Inr r, log_response requestline r))
         else (case do_GET chk srv f self_path of
                 Inl e \<Rightarrow> (Inl e, [Stderr ''Exception occurred during processing of request''])
               | Inr r \<Rightarrow> (Inr r, log_response requestline r)))"

text \<open>
  The serve loop, run on the requests that arrive before it is stopped: each comes with
  the file system as it is at that time, and is handled to completion before the next.
\<close>

fun serve_forever ::
  "(string \<Rightarrow> string option) \<Rightarrow> server \<Rightarrow> (fs \<times> string \<times> string) list
     \<Rightarrow> (exn + response) list \<times> effect list" where
  "serve_forever chk srv [] = ([], [])"
| "serve_forever chk srv ((f, command, target) # rest) =
     (let (r, es) = handle_one_request chk srv f command target;
          (rs, es') = serve_forever chk srv rest
      in (r # rs, es @ es'))"

subsection \<open>Start-up\<close>

text \<open>
  What start-up reads from its surroundings: the file system, the location of the script
  (\<^verbatim>\<open>__file__\<close>), how a command-line path resolves
  (\<^verbatim>\<open>Path(os.path.expanduser(s)).resolve()\<close>), and the operating system's answer to
  \<^verbatim>\<open>bind\<close>: the port it assigns when asked for port 0, and which fixed ports it grants.
\<close>

record env =
  files :: fs
  script_file :: Path
  resolve :: "ustring \<Rightarrow> Path"
  ephemeral_port :: "nat option"
  port_free :: "nat \<Rightarrow> bool"

record args =
  arg_file :: ustring
  arg_open :: bool
  arg_timeout :: int
  arg_port :: int

definition server_bind :: "env \<Rightarrow> string \<times> int \<Rightarrow> exn + string \<times> nat" where
  \<comment> \<open>\<^verbatim>\<open>TCPServer((host, port), ...)\<close>: the address the socket is then bound to\<close>
  "server_bind e addr =
     (case addr of (host, p) \<Rightarrow>
        if p < 0 \<or> 65535 < p then Inl OverflowError
        else if p = 0 then (case ephemeral_port e of None \<Rightarrow> Inl OSError | Some q \<Rightarrow> Inr (host, q))
        else if port_free e (nat p) then Inr (host, nat p)
        else Inl OSError)"

definition run_server :: "env \<Rightarrow> Path \<Rightarrow> bool \<Rightarrow> int \<Rightarrow> int \<Rightarrow> effect list \<times> (exn + server)" where
  "run_server e fpath auto_open timeout port =
     (case with_name (script_file e) (str ''Masking.html'') of
        Inl err \<Rightarrow> ([], Inl err)
      | Inr hpath \<Rightarrow>
         (case path_exists (files e) hpath of
            Inl err \<Rightarrow> ([], Inl err)
          | Inr False \<Rightarrow>
              ([], Inl (FileNotFoundError (str ''Masking.html not found at '' @ str_path hpath)))
          | Inr True \<Rightarrow>
               (case server_bind e (''127.0.0.1'', port) of
                  Inl err \<Rightarrow> ([Bind ''127.0.0.1'' port], Inl err)
                | Inr address \<Rightarrow>
                    let httpd = \<lparr>file_path = Some fpath, html_path = hpath,
                                 static_dir = parent hpath, server_address = address\<rparr>;
                        port' = snd (server_address httpd);
                        url = ''http://127.0.0.1:'' @ str_nat port' @ ''/?open=1''
                    in ([Bind ''127.0.0.1'' port, Print url]
                        @ (if auto_open then [BrowserOpen url] else [])
                        @ (if timeout > 0 then [ShutdownLater timeout] else [])
                        @ [ServeForever],
                        Inr httpd))))"

definition main :: "env \<Rightarrow> args \<Rightarrow> effect list \<times> (exn + server)" where
  "main e a =
     (let fpath = resolve e (arg_file a) in
      case path_exists (files e) fpath of
        Inl err \<Rightarrow> ([], Inl err)
      | Inr False \<Rightarrow> ([], Inl (FileNotFoundError (str ''File not found: '' @ str_path fpath)))
      | Inr True \<Rightarrow> run_server e fpath (arg_open a) (arg_timeout a) (arg_port a))"

definition exit_status :: "exn + 'a \<Rightarrow> nat option" where
  \<comment> \<open>an exception that nothing catches ends the process with status 1\<close>
  "exit_status r = (case r of Inl e \<Rightarrow> Some 1 | Inr x \<Rightarrow> None)"

definition stdout_lines :: "effect list \<Rightarrow> string list" where
  "stdout_lines es = concat (map (\<lambda>x. case x of Print s \<Rightarrow> [s] | _ \<Rightarrow> []) es)"

definition bound_hosts :: "effect list \<Rightarrow> string list" where
  "bound_hosts es = concat (map (\<lambda>x. case x of Bind h p \<Rightarrow> [h] | _ \<Rightarrow> []) es)"

subsection \<open>Plain paths\<close>

text \<open>
  A request target that is nothing but a path: it starts with exactly one slash, and has
  no \<^verbatim>\<open>;\<close>, \<^verbatim>\<open>?\<close> or \<^verbatim>\<open>#\<close> and no tab, carriage return or line feed.
\<close>

definition plain_path :: "string \<Rightarrow> bool" where
  "plain_path t =
     (take 1 t = ''/'' \<and> take 2 t \<noteq> ''//''
      \<and> list_all (\<lambda>c. c \<notin> set '';?#'' \<and> \<not> unsafe_url_byte c) t)"

subsection \<open>A concrete run\<close>

text \<open>
  The scenario of the specification: the server is started on \<^verbatim>\<open>/tmp/a.fits\<close> with
  \<^verbatim>\<open>--timeout 0 --port 5500\<close>; the script is installed in \<^verbatim>\<open>/opt/FME\<close>.
\<close>

definition scenario_file :: Path where
  "scenario_file = Path True [str ''tmp'', str ''a.fits'']"

definition scenario_html :: Path where
  "scenario_html = Path True [str ''opt'', str ''FME'', str ''Masking.html'']"

definition scenario_files :: fs where
  "scenario_files p =
     (if p = scenario_file then Regular [0x53, 0x49, 0x4D]
      else if p = scenario_html then Regular [0x3C, 0x68, 0x74, 0x6D, 0x6C, 0x3E]
      else if p = Path True [str ''opt'', str ''FME'', str ''fits.js''] then Regular [0x2F, 0x2F]
      else Missing)"

definition scenario_server :: server where
  "scenario_server =
     \<lparr>file_path = Some scenario_file, html_path = scenario_html,
      static_dir = Path True [str ''opt'', str ''FME''], server_address = (''127.0.0.1'', 5500)\<rparr>"

definition scenario_env :: env where
  "scenario_env =
     \<lparr>files = scenario_files,
      script_file = Path True [str ''opt'', str ''FME'', str ''masking_server.py''],
      resolve = (\<lambda>s. scenario_file),
      ephemeral_port = Some 49152,
      port_free = (\<lambda>p. True)\<rparr>"

definition scenario_args :: args where
  "scenario_args =
     \<lparr>arg_file = str ''/tmp/a.fits'', arg_open = False, arg_timeout = 0, arg_port = 5500\<rparr>"

definition accept_all :: "string \<Rightarrow> string option" where
  \<comment> \<open>a validation of bracketed host literals that refuses none\<close>
  "accept_all h = None"

text \<open>
  A second target, whose name starts with a capital omega (code point 937, outside
  Latin-1): \<^verbatim>\<open>/tmp/\<Omega>.fits\<close>.
\<close>

definition omega_file :: Path where
  "omega_file = Path True [str ''tmp'', [0x3A9] @ str ''.fits'']"

definition omega_server :: server where
  "omega_server = scenario_server\<lparr>file_path := Some omega_file\<rparr>"

definition omega_files :: fs where
  "omega_files = scenario_files(omega_file := Regular [0x53, 0x49, 0x4D])"

definition omega_env :: env where
  "omega_env = scenario_env\<lparr>files := omega_files, resolve := (\<lambda>s. omega_file)\<rparr>"

definition omega_args :: args where
  "omega_args = scenario_args\<lparr>arg_file := str ''/tmp/'' @ [0x3A9] @ str ''.fits''\<rparr>"

section \<open>Properties\<close>

subsection \<open>Decimal numerals\<close>

lemma digit_value_digit_char: "d < 10 \<Longrightarrow> digit_value (digit_char d) = Some d"
proof -
  assume "d < 10"
  then have "d \<in> {0, 1, 2, 3, 4, 5, 6, 7, 8, 9}" by auto
  then show ?thesis by (auto simp: digit_value_def digit_char_def)
qed

lemma decimal_acc_append:
  "decimal_acc a (xs @ ys) = (case decimal_acc a xs of None \<Rightarrow> None | Some v \<Rightarrow> decimal_acc v ys)"
  by (induction xs arbitrary: a) (auto split: option.splits)

lemma str_nat_nonempty: "str_nat n \<noteq> []"
  by (subst str_nat.simps) simp

lemma decimal_acc_str_nat: "decimal_acc 0 (str_nat n) = Some n"
proof (induction n rule: str_nat.induct)
  case (1 n)
  show ?case
  proof (cases "n < 10")
    case True
    then show ?thesis by (subst str_nat.simps) (simp add: digit_value_digit_char)
  next
    case False
    with 1 have ih: "decimal_acc 0 (str_nat (n div 10)) = Some (n div 10)" by simp
    have "n mod 10 < 10" by simp
    then have dv: "digit_value (digit_char (n mod 10)) = Some (n mod 10)"
      by (rule digit_value_digit_char)
    show ?thesis using False by (subst str_nat.simps) (simp add: decimal_acc_append ih dv)
  qed
qed

lemma decimal_value_str_nat: "decimal_value (str_nat n) = Some n"
  by (simp add: decimal_value_def str_nat_nonempty decimal_acc_str_nat)

subsection \<open>Latin-1 text\<close>

lemma of_char_less_256: "(of_char c :: nat) < 256"
proof -
  have "(of_char c :: nat) mod 256 = of_char c" by simp
  then show ?thesis by (metis mod_less_divisor zero_less_numeral)
qed

lemma encode_latin1_str: "encode_latin1 (str s) = Inr s"
  by (simp add: encode_latin1_def str_def list_all_iff of_char_less_256 comp_def)

lemma str_eq_iff: "(str a = str b) = (a = b)"
  unfolding str_def by (rule inj_map_eq_map) (rule inj_of_char)

lemma str_eq_Nil: "(str s = []) = (s = [])"
  by (simp add: str_def)

lemma str_append: "str (a @ b) = str a @ str b"
  by (simp add: str_def)

subsection \<open>Parsing the routed targets\<close>

lemmas urlparse_defs = urlparse_def urlsplit_def split_scheme_def before_def after_def
  split_rest_def c0_control_or_space_def unsafe_url_byte_def uses_params_def splitparams_def

lemma urlparse_file:
  "urlparse chk ''/file'' =
     Inr \<lparr>scheme = [], netloc = [], path = ''/file'', params = [], query = [], fragment = []\<rparr>"
  by (simp add: urlparse_defs)

lemma urlparse_root:
  "urlparse chk ''/'' =
     Inr \<lparr>scheme = [], netloc = [], path = ''/'', params = [], query = [], fragment = []\<rparr>"
  by (simp add: urlparse_defs)

lemma urlparse_index:
  "urlparse chk ''/index.html'' =
     Inr \<lparr>scheme = [], netloc = [], path = ''/index.html'', params = [], query = [], fragment = []\<rparr>"
  by (simp add: urlparse_defs)

subsection \<open>What each handler answers\<close>

lemmas handler_defs = serve_masking_html_def serve_static_file_def serve_fits_file_def
  bind_exn_def send_response_def end_headers_def encode_latin1_str

lemma serve_masking_html_result:
  "serve_masking_html srv f =
     (case f (html_path srv) of
        Regular data \<Rightarrow>
          Inr (Response 200
            [(''Content-Type'', ''text/html; charset=utf-8''), (''Cache-Control'', ''no-store''),
             (''Content-Length'', str_nat (length data))] data)
      | _ \<Rightarrow> Inr (send_error 500 ''Failed to load Masking.html''))"
  by (simp add: handler_defs read_bytes_def split: node.splits)

lemma serve_static_file_result:
  "serve_static_file srv f nm content_type =
     (case f (joinpath (static_dir srv) nm) of
        Missing \<Rightarrow> Inr (send_error 404 ''Not Found'')
      | Inaccessible \<Rightarrow> Inr (send_error 500 ''Failed to load static file'')
      | Unreadable \<Rightarrow> Inr (send_error 500 ''Failed to load static file'')
      | Regular data \<Rightarrow>
          (case encode_latin1 content_type of
             Inl e \<Rightarrow> Inl e
           | Inr ct \<Rightarrow>
               Inr (Response 200
                 [(''Content-Type'', ct), (''Cache-Control'', ''no-store''),
                  (''Content-Length'', str_nat (length data))] data)))"
  by (simp add: handler_defs read_bytes_def path_exists_def Let_def split: node.splits sum.splits)

lemma serve_fits_file_result:
  "serve_fits_file srv f =
     (case file_path srv of
        None \<Rightarrow> Inr (send_error 404 ''File not found'')
      | Some p \<Rightarrow>
         (case f p of
            Missing \<Rightarrow> Inr (send_error 404 ''File not found'')
          | Inaccessible \<Rightarrow> Inl PermissionError
          | Unreadable \<Rightarrow> Inr (send_error 500 ''Failed to read file'')
          | Regular data \<Rightarrow>
              (case encode_latin1 (name p) of
                 Inl e \<Rightarrow> Inl e
               | Inr nm \<Rightarrow>
                   Inr (Response 200
                     [(''Content-Type'', ''application/octet-stream''),
                      (''Cache-Control'', ''no-store''),
                      (''Content-Length'', str_nat (length data)),
                      (''X-Masking-File-Name'', nm)] data))))"
  by (simp add: handler_defs read_bytes_def path_exists_def
      split: option.splits node.splits sum.splits)

subsection \<open>The concrete run\<close>

lemma scenario_paths:
  "scenario_html \<noteq> scenario_file"
  "with_name (script_file scenario_env) (str ''Masking.html'') = Inr scenario_html"
  "parent scenario_html = Path True [str ''opt'', str ''FME'']"
  "str_path scenario_file = str ''/tmp/a.fits''"
  "str_path scenario_html = str ''/opt/FME/Masking.html''"
  "name scenario_file = str ''a.fits''"
  by (simp_all add: scenario_html_def scenario_file_def scenario_env_def with_name_def name_def
      parent_def str_path_def str_eq_iff str_eq_Nil str_append [symmetric])

lemma scenario_bind: "server_bind scenario_env (''127.0.0.1'', 5500) = Inr (''127.0.0.1'', 5500)"
  by (simp add: server_bind_def scenario_env_def)

lemma str_nat_5500: "str_nat 5500 = ''5500''"
  by (simp add: str_nat.simps digit_char_def)

lemma scenario_args_fields:
  "arg_open scenario_args = False" "arg_timeout scenario_args = 0" "arg_port scenario_args = 5500"
  by (simp_all add: scenario_args_def)

lemma main_scenario:
  "main scenario_env scenario_args =
     ([Bind ''127.0.0.1'' 5500, Print ''http://127.0.0.1:5500/?open=1'', ServeForever],
      Inr scenario_server)"
proof -
  have r: "resolve scenario_env (arg_file scenario_args) = scenario_file"
    by (simp add: scenario_env_def)
  have f: "files scenario_env = scenario_files" by (simp add: scenario_env_def)
  have e1: "path_exists scenario_files scenario_file = Inr True"
    by (simp add: path_exists_def scenario_files_def)
  have e2: "path_exists scenario_files scenario_html = Inr True"
    by (simp add: path_exists_def scenario_files_def scenario_paths)
  show ?thesis
    by (simp add: main_def run_server_def r f e1 e2 scenario_bind str_nat_5500
        scenario_args_fields scenario_paths scenario_server_def)
qed

subsection \<open>Handling a GET request\<close>

lemma handle_GET:
  "handle_one_request chk srv f ''GET'' t =
     (case do_GET chk srv f (request_path t) of
        Inl e \<Rightarrow> (Inl e, [Stderr ''Exception occurred during processing of request''])
      | Inr r \<Rightarrow> (Inr r, []))"
  by (simp add: handle_one_request_def do_methods_def Let_def log_response_def log_error_def
      log_request_def log_message_def split: sum.splits response.splits)

lemma request_path_file: "request_path ''/file'' = ''/file''"
  by (simp add: request_path_def)

subsection \<open>Serving the target file\<close>

text \<open>
  What \<^verbatim>\<open>GET /file\<close> answers for a readable target: the 200 response with the file's
  bytes and its name in \<^verbatim>\<open>X-Masking-File-Name\<close> when the name is Latin-1 text, and no
  response at all otherwise, because \<^verbatim>\<open>send_header\<close> raises.
\<close>

lemma get_file_readable:
  assumes "file_path srv = Some p" and "f p = Regular data"
  shows "do_GET chk srv f ''/file'' =
     (case encode_latin1 (name p) of
        Inl e \<Rightarrow> Inl e
      | Inr nm \<Rightarrow>
          Inr (Response 200
            [(''Content-Type'', ''application/octet-stream''), (''Cache-Control'', ''no-store''),
             (''Content-Length'', str_nat (length data)), (''X-Masking-File-Name'', nm)] data))"
  using assms by (simp add: do_GET_def urlparse_file serve_fits_file_result)

lemma get_file_scenario:
  "do_GET accept_all scenario_server scenario_files ''/file'' =
     Inr (Response 200
       [(''Content-Type'', ''application/octet-stream''), (''Cache-Control'', ''no-store''),
        (''Content-Length'', ''3''), (''X-Masking-File-Name'', ''a.fits'')] [0x53, 0x49, 0x4D])"
proof -
  have a: "file_path scenario_server = Some scenario_file" by (simp add: scenario_server_def)
  have b: "scenario_files scenario_file = Regular [0x53, 0x49, 0x4D]"
    by (simp add: scenario_files_def)
  have c: "str_nat (Suc (Suc (Suc 0))) = ''3''"
    by (simp add: str_nat.simps digit_char_def)
  show ?thesis
    using get_file_readable [where chk = accept_all and srv = scenario_server
        and f = scenario_files and p = scenario_file, OF a b]
    by (simp add: c scenario_paths encode_latin1_str)
qed

text \<open>
  Claim C1: for every target file that exists and is readable at request time,
  \<^verbatim>\<open>GET /file\<close> is answered with status 200, the file's bytes and its base name in
  \<^verbatim>\<open>X-Masking-File-Name\<close>. The code does not do this for \<^verbatim>\<open>/tmp/\<Omega>.fits\<close>: start-up
  succeeds, the file is readable, and handling \<^verbatim>\<open>GET /file\<close> raises
  \<^verbatim>\<open>UnicodeEncodeError\<close> in \<^verbatim>\<open>send_header\<close>; no response is sent, the exception is
  reported on standard error.
\<close>

theorem get_file_non_latin1_name_raises:
  "snd (main omega_env omega_args) = Inr omega_server
   \<and> file_path omega_server = Some omega_file
   \<and> omega_files omega_file = Regular [0x53, 0x49, 0x4D]
   \<and> name omega_file = [0x3A9] @ str ''.fits''
   \<and> do_GET accept_all omega_server omega_files ''/file'' = Inl UnicodeEncodeError
   \<and> handle_one_request accept_all omega_server omega_files ''GET'' ''/file'' =
       (Inl UnicodeEncodeError, [Stderr ''Exception occurred during processing of request''])"
proof -
  have a: "file_path omega_server = Some omega_file" by (simp add: omega_server_def)
  have b: "omega_files omega_file = Regular [0x53, 0x49, 0x4D]" by (simp add: omega_files_def)
  have n: "name omega_file = [0x3A9] @ str ''.fits''" by (simp add: name_def omega_file_def)
  have e: "encode_latin1 (name omega_file) = Inl UnicodeEncodeError"
    by (simp add: n encode_latin1_def)
  have g: "do_GET accept_all omega_server omega_files ''/file'' = Inl UnicodeEncodeError"
    using get_file_readable [where chk = accept_all and srv = omega_server and f = omega_files
        and p = omega_file, OF a b] e
    by simp
  have h: "handle_one_request accept_all omega_server omega_files ''GET'' ''/file'' =
       (Inl UnicodeEncodeError, [Stderr ''Exception occurred during processing of request''])"
    by (simp add: handle_GET request_path_file g)
  have d: "omega_file \<noteq> scenario_html"
    by (simp add: omega_file_def scenario_html_def str_eq_iff)
  have r: "resolve omega_env (arg_file omega_args) = omega_file"
    by (simp add: omega_env_def)
  have f: "files omega_env = omega_files" by (simp add: omega_env_def)
  have s: "script_file omega_env = script_file scenario_env" by (simp add: omega_env_def)
  have e1: "path_exists omega_files omega_file = Inr True"
    by (simp add: path_exists_def omega_files_def)
  have e2: "path_exists omega_files scenario_html = Inr True"
    using d by (simp add: path_exists_def omega_files_def scenario_files_def scenario_paths)
  have bd: "server_bind omega_env (''127.0.0.1'', 5500) = Inr (''127.0.0.1'', 5500)"
    by (simp add: server_bind_def omega_env_def scenario_env_def)
  have ar: "arg_open omega_args = False" "arg_timeout omega_args = 0" "arg_port omega_args = 5500"
    by (simp_all add: omega_args_def scenario_args_def)
  have m: "snd (main omega_env omega_args) = Inr omega_server"
    by (simp add: main_def run_server_def r f s e1 e2 bd ar str_nat_5500 scenario_paths
        omega_server_def scenario_server_def)
  show ?thesis using m a b n g h by blast
qed

subsection \<open>Headers of successful responses\<close>

text \<open>
  Claim C3. Every response with status 200 that one of the three handlers (application
  shell, static asset, target file) produces carries exactly one \<^verbatim>\<open>Cache-Control\<close>
  header, with value \<^verbatim>\<open>no-store\<close>, and exactly one \<^verbatim>\<open>Content-Length\<close> header, whose
  value is the decimal numeral of the length of the body written.
\<close>

theorem success_has_no_store_and_exact_length:
  assumes "h = serve_masking_html srv f \<or> h = serve_static_file srv f nm content_type
           \<or> h = serve_fits_file srv f"
      and "h = Inr r" and "status r = 200"
  shows "header_values ''Cache-Control'' r = [''no-store''] \<and>
     (\<exists>b. body r = Some b \<and> header_values ''Content-Length'' r = [str_nat (length b)]
        \<and> decimal_value (str_nat (length b)) = Some (length b))"
proof -
  from assms(1) consider
      (shell) "h = serve_masking_html srv f"
    | (asset) "h = serve_static_file srv f nm content_type"
    | (target) "h = serve_fits_file srv f"
    by blast
  then show ?thesis
  proof cases
    case shell
    with assms(2,3) show ?thesis unfolding serve_masking_html_result
      by (auto simp: send_error_def header_values_def decimal_value_str_nat split: node.splits)
  next
    case asset
    with assms(2,3) show ?thesis unfolding serve_static_file_result
      by (auto simp: send_error_def header_values_def decimal_value_str_nat
          split: node.splits sum.splits)
  next
    case target
    with assms(2,3) show ?thesis unfolding serve_fits_file_result
      by (auto simp: send_error_def header_values_def decimal_value_str_nat
          split: option.splits node.splits sum.splits)
  qed
qed

theorem success_has_no_store_and_exact_length_witness:
  "serve_static_file scenario_server scenario_files (str ''fits.js'')
      (str ''application/javascript; charset=utf-8'') =
     Inr (Response 200
      [(''Content-Type'', ''application/javascript; charset=utf-8''), (''Cache-Control'', ''no-store''),
       (''Content-Length'', ''2'')] [0x2F, 0x2F])
   \<and> header_values ''Cache-Control'' (Response 200
      [(''Content-Type'', ''application/javascript; charset=utf-8''), (''Cache-Control'', ''no-store''),
       (''Content-Length'', ''2'')] [0x2F, 0x2F]) = [''no-store'']
   \<and> header_values ''Content-Length'' (Response 200
      [(''Content-Type'', ''application/javascript; charset=utf-8''), (''Cache-Control'', ''no-store''),
       (''Content-Length'', ''2'')] [0x2F, 0x2F]) = [''2'']"
proof -
  let ?h = "serve_static_file scenario_server scenario_files (str ''fits.js'')
      (str ''application/javascript; charset=utf-8'')"
  let ?r = "Response 200
      [(''Content-Type'', ''application/javascript; charset=utf-8''), (''Cache-Control'', ''no-store''),
       (''Content-Length'', ''2'')] [0x2F, 0x2F]"
  have j: "joinpath (static_dir scenario_server) (str ''fits.js'') =
      Path True [str ''opt'', str ''FME'', str ''fits.js'']"
    by (simp add: joinpath_def scenario_server_def)
  have k: "scenario_files (Path True [str ''opt'', str ''FME'', str ''fits.js'']) = Regular [0x2F, 0x2F]"
    by (simp add: scenario_files_def scenario_file_def scenario_html_def str_eq_iff)
  have c: "str_nat (Suc (Suc 0)) = ''2''"
    by (simp add: str_nat.simps digit_char_def)
  have r: "?h = Inr ?r"
    unfolding serve_static_file_result j k by (simp add: encode_latin1_str c)
  have s: "status ?r = 200" by simp
  have o: "?h = serve_masking_html scenario_server scenario_files \<or> ?h = ?h
           \<or> ?h = serve_fits_file scenario_server scenario_files" by simp
  from success_has_no_store_and_exact_length [OF o r s] r show ?thesis
    by (simp add: header_values_def)
qed

subsection \<open>The target file is gone or cannot be read\<close>

text \<open>
  Claim C2, as stated: whenever the target file is missing or unreadable at request time,
  \<^verbatim>\<open>GET /file\<close> is answered with 404. It fails for a file that is still there but
  cannot be read: \<^verbatim>\<open>exists()\<close> holds, \<^verbatim>\<open>read_bytes()\<close> raises, and the handler
  answers 500.
\<close>

theorem get_file_unreadable_counterexample:
  "(scenario_files(scenario_file := Unreadable)) scenario_file = Unreadable
   \<and> do_GET accept_all scenario_server (scenario_files(scenario_file := Unreadable)) ''/file''
       = Inr (ErrorResponse 500 ''Failed to read file'')
   \<and> do_GET accept_all scenario_server (scenario_files(scenario_file := Unreadable)) ''/file''
       \<noteq> Inr (ErrorResponse 404 ''File not found'')"
  by (simp add: do_GET_def urlparse_file serve_fits_file_result scenario_server_def send_error_def)

text \<open>
  The handler calls \<^verbatim>\<open>exists()\<close> before its \<^verbatim>\<open>try\<close>: when \<^verbatim>\<open>stat\<close> on the
  target is refused, the exception leaves \<^verbatim>\<open>do_GET\<close> and no response is sent.
\<close>

lemma get_file_inaccessible_raises:
  assumes "file_path srv = Some p" and "f p = Inaccessible"
  shows "do_GET chk srv f ''/file'' = Inl PermissionError"
  using assms by (simp add: do_GET_def urlparse_file serve_fits_file_result)

text \<open>
  Claim C2, amended. When the target file is missing at request time (\<^verbatim>\<open>exists()\<close>
  returns false), \<^verbatim>\<open>GET /file\<close> is answered with 404 \<^verbatim>\<open>File not found\<close>, whatever
  the file system held at start-up; when \<^verbatim>\<open>exists()\<close> returns true but reading the
  file raises, the answer is 500 \<^verbatim>\<open>Failed to read file\<close>.
\<close>

theorem get_file_missing_404_unreadable_500:
  assumes "file_path srv = Some p"
  shows "(f p = Missing \<longrightarrow> do_GET chk srv f ''/file'' = Inr (send_error 404 ''File not found''))
       \<and> (f p = Unreadable \<longrightarrow> do_GET chk srv f ''/file'' = Inr (send_error 500 ''Failed to read file''))"
  using assms by (simp add: do_GET_def urlparse_file serve_fits_file_result)

theorem get_file_missing_404_unreadable_500_witness:
  "snd (main scenario_env scenario_args) = Inr scenario_server
   \<and> files scenario_env scenario_file = Regular [0x53, 0x49, 0x4D]
   \<and> file_path scenario_server = Some scenario_file
   \<and> (scenario_files(scenario_file := Missing)) scenario_file = Missing
   \<and> do_GET accept_all scenario_server (scenario_files(scenario_file := Missing)) ''/file''
       = Inr (ErrorResponse 404 ''File not found'')
   \<and> (scenario_files(scenario_file := Unreadable)) scenario_file = Unreadable
   \<and> do_GET accept_all scenario_server (scenario_files(scenario_file := Unreadable)) ''/file''
       = Inr (ErrorResponse 500 ''Failed to read file'')"
proof -
  have a: "file_path scenario_server = Some scenario_file"
    by (simp add: scenario_server_def)
  have m: "(scenario_files(scenario_file := Missing)) scenario_file = Missing" by simp
  have u: "(scenario_files(scenario_file := Unreadable)) scenario_file = Unreadable" by simp
  have s: "files scenario_env scenario_file = Regular [0x53, 0x49, 0x4D]"
    by (simp add: scenario_env_def scenario_files_def)
  from get_file_missing_404_unreadable_500
    [where srv = scenario_server and p = scenario_file and chk = accept_all
       and f = "scenario_files(scenario_file := Missing)", OF a]
    get_file_missing_404_unreadable_500
    [where srv = scenario_server and p = scenario_file and chk = accept_all
       and f = "scenario_files(scenario_file := Unreadable)", OF a]
  show ?thesis using a m u s by (simp add: main_scenario send_error_def)
qed

subsection \<open>The application shell\<close>

text \<open>
  Claim C4, as stated: in every server state, \<^verbatim>\<open>GET /\<close> and \<^verbatim>\<open>GET /index.html\<close>
  both have status 200. It fails when \<^verbatim>\<open>Masking.html\<close> is gone at request time: both
  are answered with 500.
\<close>

theorem get_root_shell_missing_counterexample:
  "do_GET accept_all scenario_server (scenario_files(scenario_html := Missing)) ''/''
     = Inr (ErrorResponse 500 ''Failed to load Masking.html'')
   \<and> do_GET accept_all scenario_server (scenario_files(scenario_html := Missing)) ''/index.html''
     = Inr (ErrorResponse 500 ''Failed to load Masking.html'')"
  by (simp add: do_GET_def urlparse_root urlparse_index serve_masking_html_result
      scenario_server_def send_error_def)

text \<open>
  Claim C4, amended. In every server state \<^verbatim>\<open>GET /\<close> and \<^verbatim>\<open>GET /index.html\<close> are
  answered identically; whenever \<^verbatim>\<open>Masking.html\<close> is readable at request time, the
  answer has status 200 and its body is the bytes of that file.
\<close>

theorem root_and_index_identical:
  "do_GET chk srv f ''/'' = do_GET chk srv f ''/index.html''
   \<and> (f (html_path srv) = Regular data \<longrightarrow>
        do_GET chk srv f ''/'' =
          Inr (Response 200
            [(''Content-Type'', ''text/html; charset=utf-8''), (''Cache-Control'', ''no-store''),
             (''Content-Length'', str_nat (length data))] data))"
  by (simp add: do_GET_def urlparse_root urlparse_index serve_masking_html_result)

theorem root_and_index_identical_witness:
  "scenario_files (html_path scenario_server) = Regular [0x3C, 0x68, 0x74, 0x6D, 0x6C, 0x3E]
   \<and> do_GET accept_all scenario_server scenario_files ''/index.html'' =
          Inr (Response 200
            [(''Content-Type'', ''text/html; charset=utf-8''), (''Cache-Control'', ''no-store''),
             (''Content-Length'', ''6'')] [0x3C, 0x68, 0x74, 0x6D, 0x6C, 0x3E])"
proof -
  have h: "scenario_files (html_path scenario_server) = Regular [0x3C, 0x68, 0x74, 0x6D, 0x6C, 0x3E]"
    by (simp add: scenario_files_def scenario_server_def scenario_paths)
  have c: "str_nat (length [0x3C, 0x68, 0x74, 0x6D, 0x6C, 0x3E :: byte]) = ''6''"
    by (simp add: str_nat.simps digit_char_def)
  note t = root_and_index_identical
    [where srv = scenario_server and f = scenario_files and chk = accept_all
       and data = "[0x3C, 0x68, 0x74, 0x6D, 0x6C, 0x3E]"]
  have e: "do_GET accept_all scenario_server scenario_files ''/'' =
           do_GET accept_all scenario_server scenario_files ''/index.html''"
    using t by (rule conjunct1)
  have v: "do_GET accept_all scenario_server scenario_files ''/'' =
          Inr (Response 200
            [(''Content-Type'', ''text/html; charset=utf-8''), (''Cache-Control'', ''no-store''),
             (''Content-Length'', str_nat (length [0x3C, 0x68, 0x74, 0x6D, 0x6C, 0x3E :: byte]))]
            [0x3C, 0x68, 0x74, 0x6D, 0x6C, 0x3E])"
    using t h by blast
  show ?thesis unfolding e [symmetric] v c using h by simp
qed

subsection \<open>Methods other than GET\<close>

text \<open>
  Claim C10. The handler class has no \<^verbatim>\<open>do_\<close> method but \<^verbatim>\<open>do_GET\<close>, so a request
  with any other method, on any target, is answered by the library with 501; the answer
  depends on neither the server's paths nor the file system, so no resource handler ran,
  and nothing is logged.
\<close>

theorem other_methods_501:
  assumes "command \<noteq> ''GET''"
  shows "handle_one_request chk srv f command self_path =
           (Inr (send_error 501 (''Unsupported method ('' @ repr command @ '')'')), [])"
  using assms
  by (simp add: handle_one_request_def do_methods_def log_response_def send_error_def
      log_error_def log_request_def log_message_def Let_def)

theorem other_methods_501_witness:
  "''POST'' \<noteq> ''GET'' \<and>
   handle_one_request accept_all scenario_server scenario_files ''POST'' ''/file'' =
     (Inr (ErrorResponse 501 (''Unsupported method ('' @ [CHR 0x27] @ ''POST'' @ [CHR 0x27] @ '')'')), [])"
proof -
  have n: "''POST'' \<noteq> ''GET''" by simp
  have r: "repr ''POST'' = [CHR 0x27] @ ''POST'' @ [CHR 0x27]"
    by (simp add: repr_def repr_char_def printable_def Let_def)
  from other_methods_501 [OF n, of accept_all scenario_server scenario_files "''/file''"]
  show ?thesis using n by (simp add: r send_error_def)
qed

subsection \<open>Start-up checks\<close>

text \<open>
  Claim C6, as stated: start-up aborts when the target file does not exist or is not
  readable, or when \<^verbatim>\<open>Masking.html\<close> is missing. It fails for a target that exists
  but cannot be read: \<^verbatim>\<open>main\<close> tests \<^verbatim>\<open>exists()\<close> only, so the socket is bound,
  the URL is printed and the serve loop is entered.
\<close>

theorem unreadable_target_starts_counterexample:
  "files (scenario_env\<lparr>files := scenario_files(scenario_file := Unreadable)\<rparr>)
     (resolve (scenario_env\<lparr>files := scenario_files(scenario_file := Unreadable)\<rparr>)
        (arg_file scenario_args)) = Unreadable
   \<and> main (scenario_env\<lparr>files := scenario_files(scenario_file := Unreadable)\<rparr>) scenario_args =
       ([Bind ''127.0.0.1'' 5500, Print ''http://127.0.0.1:5500/?open=1'', ServeForever],
        Inr scenario_server)
   \<and> exit_status (snd (main (scenario_env\<lparr>files := scenario_files(scenario_file := Unreadable)\<rparr>)
        scenario_args)) = None"
proof -
  let ?e = "scenario_env\<lparr>files := scenario_files(scenario_file := Unreadable)\<rparr>"
  have r: "resolve scenario_env (arg_file scenario_args) = scenario_file"
    by (simp add: scenario_env_def)
  have e1: "path_exists (scenario_files(scenario_file := Unreadable)) scenario_file = Inr True"
    by (simp add: path_exists_def)
  have e2: "path_exists (scenario_files(scenario_file := Unreadable)) scenario_html = Inr True"
    by (simp add: path_exists_def scenario_files_def scenario_paths)
  have b: "server_bind ?e (''127.0.0.1'', 5500) = Inr (''127.0.0.1'', 5500)"
    by (simp add: server_bind_def scenario_env_def)
  have m: "main ?e scenario_args =
       ([Bind ''127.0.0.1'' 5500, Print ''http://127.0.0.1:5500/?open=1'', ServeForever],
        Inr scenario_server)"
    by (simp add: main_def run_server_def r e1 e2 b str_nat_5500 scenario_args_fields
        scenario_paths scenario_server_def)
  show ?thesis by (simp add: m r exit_status_def)
qed

text \<open>
  Claim C6, amended. If the target file does not exist at start-up, or if it exists and
  \<^verbatim>\<open>Masking.html\<close> is missing beside the script, \<^verbatim>\<open>main\<close> raises
  \<^verbatim>\<open>FileNotFoundError\<close> with a message naming the path, the process ends with status 1,
  and nothing has been done before: no socket bound, nothing printed, no serve loop.
  (So it is, with the \<^verbatim>\<open>PermissionError\<close> of \<^verbatim>\<open>exists()\<close>, when \<^verbatim>\<open>stat\<close> on the
  target is refused.)
\<close>

theorem startup_aborts_when_file_or_shell_missing:
  "(files e (resolve e (arg_file a)) = Missing \<longrightarrow>
      main e a = ([], Inl (FileNotFoundError
                    (str ''File not found: '' @ str_path (resolve e (arg_file a)))))
      \<and> exit_status (snd (main e a)) = Some 1)
   \<and> (path_exists (files e) (resolve e (arg_file a)) = Inr True
        \<and> with_name (script_file e) (str ''Masking.html'') = Inr h \<and> files e h = Missing \<longrightarrow>
      main e a = ([], Inl (FileNotFoundError (str ''Masking.html not found at '' @ str_path h)))
      \<and> exit_status (snd (main e a)) = Some 1)
   \<and> (files e (resolve e (arg_file a)) = Inaccessible \<longrightarrow>
      main e a = ([], Inl PermissionError) \<and> exit_status (snd (main e a)) = Some 1)"
  by (simp add: main_def run_server_def path_exists_def exit_status_def)

theorem startup_aborts_when_file_or_shell_missing_witness:
  "files (scenario_env\<lparr>files := scenario_files(scenario_file := Missing)\<rparr>)
     (resolve (scenario_env\<lparr>files := scenario_files(scenario_file := Missing)\<rparr>)
        (arg_file scenario_args)) = Missing
   \<and> main (scenario_env\<lparr>files := scenario_files(scenario_file := Missing)\<rparr>) scenario_args =
        ([], Inl (FileNotFoundError (str ''File not found: /tmp/a.fits'')))
   \<and> path_exists (files (scenario_env\<lparr>files := scenario_files(scenario_html := Missing)\<rparr>))
     (resolve (scenario_env\<lparr>files := scenario_files(scenario_html := Missing)\<rparr>)
        (arg_file scenario_args)) = Inr True
   \<and> with_name (script_file (scenario_env\<lparr>files := scenario_files(scenario_html := Missing)\<rparr>))
        (str ''Masking.html'') = Inr scenario_html
   \<and> files (scenario_env\<lparr>files := scenario_files(scenario_html := Missing)\<rparr>) scenario_html = Missing
   \<and> main (scenario_env\<lparr>files := scenario_files(scenario_html := Missing)\<rparr>) scenario_args =
        ([], Inl (FileNotFoundError (str ''Masking.html not found at /opt/FME/Masking.html'')))
   \<and> files (scenario_env\<lparr>files := scenario_files(scenario_file := Inaccessible)\<rparr>)
     (resolve (scenario_env\<lparr>files := scenario_files(scenario_file := Inaccessible)\<rparr>)
        (arg_file scenario_args)) = Inaccessible
   \<and> main (scenario_env\<lparr>files := scenario_files(scenario_file := Inaccessible)\<rparr>) scenario_args =
        ([], Inl PermissionError)"
proof -
  let ?e1 = "scenario_env\<lparr>files := scenario_files(scenario_file := Missing)\<rparr>"
  let ?e2 = "scenario_env\<lparr>files := scenario_files(scenario_html := Missing)\<rparr>"
  let ?e3 = "scenario_env\<lparr>files := scenario_files(scenario_file := Inaccessible)\<rparr>"
  have a1: "files ?e1 (resolve ?e1 (arg_file scenario_args)) = Missing"
    by (simp add: scenario_env_def)
  have p1: "str ''File not found: '' @ str_path (resolve ?e1 (arg_file scenario_args))
            = str ''File not found: /tmp/a.fits''"
    by (simp add: scenario_env_def scenario_paths str_append [symmetric])
  have a2: "path_exists (files ?e2) (resolve ?e2 (arg_file scenario_args)) = Inr True"
    using scenario_paths(1) by (simp add: scenario_env_def scenario_files_def path_exists_def)
  have b2: "with_name (script_file ?e2) (str ''Masking.html'') = Inr scenario_html"
    using scenario_paths(2) by simp
  have c2: "files ?e2 scenario_html = Missing" by simp
  have p2: "str ''Masking.html not found at '' @ str_path scenario_html
            = str ''Masking.html not found at /opt/FME/Masking.html''"
    by (simp add: scenario_paths str_append [symmetric])
  have a3: "files ?e3 (resolve ?e3 (arg_file scenario_args)) = Inaccessible"
    by (simp add: scenario_env_def)
  note t1 = startup_aborts_when_file_or_shell_missing [where e = ?e1 and a = scenario_args]
  note t2 = startup_aborts_when_file_or_shell_missing
    [where e = ?e2 and a = scenario_args and h = scenario_html]
  note t3 = startup_aborts_when_file_or_shell_missing [where e = ?e3 and a = scenario_args]
  have m1: "main ?e1 scenario_args =
      ([], Inl (FileNotFoundError (str ''File not found: /tmp/a.fits'')))"
    using t1 a1 p1 by simp
  have m2: "main ?e2 scenario_args =
      ([], Inl (FileNotFoundError (str ''Masking.html not found at /opt/FME/Masking.html'')))"
    using t2 a2 b2 c2 p2 by simp
  have m3: "main ?e3 scenario_args = ([], Inl PermissionError)"
    using t3 a3 by blast
  show ?thesis using a1 a2 b2 c2 a3 m1 m2 m3 by blast
qed

subsection \<open>Standard output\<close>

lemma stdout_lines_append: "stdout_lines (xs @ ys) = stdout_lines xs @ stdout_lines ys"
  by (simp add: stdout_lines_def)

lemma handle_one_request_prints_nothing:
  "stdout_lines (snd (handle_one_request chk srv f command self_path)) = []"
  by (simp add: handle_one_request_def Let_def log_response_def log_error_def log_request_def
      log_message_def stdout_lines_def split: sum.splits response.splits)

lemma snd_serve_forever_Cons:
  "snd (serve_forever chk srv ((f, command, self_path) # rest)) =
     snd (handle_one_request chk srv f command self_path) @ snd (serve_forever chk srv rest)"
  by (simp split: prod.splits)

lemma serve_forever_prints_nothing: "stdout_lines (snd (serve_forever chk srv reqs)) = []"
proof (induction reqs)
  case Nil
  show ?case by (simp add: stdout_lines_def)
next
  case (Cons rq reqs)
  obtain f command self_path where rq: "rq = (f, command, self_path)" by (cases rq) auto
  show ?case unfolding rq snd_serve_forever_Cons stdout_lines_append
    using Cons handle_one_request_prints_nothing by simp
qed

lemma str_nat_digits: "set (str_nat n) \<subseteq> set ''0123456789''"
proof (induction n rule: str_nat.induct)
  case (1 n)
  have d: "\<And>k. k < 10 \<Longrightarrow> digit_char k \<in> set ''0123456789''"
    unfolding digit_char_def by (rule nth_mem) simp
  show ?case
  proof (cases "n < 10")
    case True
    then show ?thesis using d [of n] by (subst str_nat.simps) simp
  next
    case False
    have "n mod 10 < 10" by simp
    from d [OF this] 1 False show ?thesis by (subst str_nat.simps) simp
  qed
qed

text \<open>
  Claim C7. When start-up succeeds, the lines printed on standard output are exactly one,
  \<^verbatim>\<open>http://127.0.0.1:<port>/?open=1\<close> with the port the socket is bound to (it holds
  no line break); when a fixed port is configured, that port is the configured one; and
  serving any requests afterwards adds no line, since \<^verbatim>\<open>log_message\<close> writes nothing.
\<close>

theorem startup_prints_url_only:
  assumes "main e a = (es, Inr srv)"
  shows "stdout_lines es = [''http://127.0.0.1:'' @ str_nat (snd (server_address srv)) @ ''/?open=1'']
       \<and> CHR 0x0A \<notin> set (''http://127.0.0.1:'' @ str_nat (snd (server_address srv)) @ ''/?open=1'')
       \<and> (arg_port a \<noteq> 0 \<longrightarrow> int (snd (server_address srv)) = arg_port a)
       \<and> stdout_lines (es @ snd (serve_forever chk srv reqs)) = stdout_lines es"
proof -
  have nl: "CHR 0x0A \<notin> set (str_nat (snd (server_address srv)))"
    using str_nat_digits [of "snd (server_address srv)"] by auto
  have sf: "stdout_lines (es @ snd (serve_forever chk srv reqs)) = stdout_lines es"
    using serve_forever_prints_nothing [of chk srv reqs] by (simp add: stdout_lines_append)
  have "stdout_lines es = [''http://127.0.0.1:'' @ str_nat (snd (server_address srv)) @ ''/?open=1'']
       \<and> (arg_port a \<noteq> 0 \<longrightarrow> int (snd (server_address srv)) = arg_port a)"
    using assms
    by (auto simp: main_def run_server_def server_bind_def stdout_lines_def Let_def
        split: if_splits sum.splits option.splits bool.splits)
  then show ?thesis using nl sf by simp
qed

theorem startup_prints_url_only_witness:
  "main scenario_env scenario_args =
     ([Bind ''127.0.0.1'' 5500, Print ''http://127.0.0.1:5500/?open=1'', ServeForever],
      Inr scenario_server)
   \<and> arg_port scenario_args = 5500
   \<and> stdout_lines [Bind ''127.0.0.1'' 5500, Print ''http://127.0.0.1:5500/?open=1'', ServeForever]
       = [''http://127.0.0.1:5500/?open=1'']
   \<and> stdout_lines ([Bind ''127.0.0.1'' 5500, Print ''http://127.0.0.1:5500/?open=1'', ServeForever]
        @ snd (serve_forever accept_all scenario_server
                [(scenario_files, ''GET'', ''/file''), (scenario_files, ''GET'', ''/nothing'')]))
       = [''http://127.0.0.1:5500/?open=1'']"
proof -
  let ?es = "[Bind ''127.0.0.1'' 5500, Print ''http://127.0.0.1:5500/?open=1'', ServeForever]"
  let ?reqs = "[(scenario_files, ''GET'', ''/file''), (scenario_files, ''GET'', ''/nothing'')]"
  have c2: "arg_port scenario_args = 5500" by (simp add: scenario_args_def)
  have p: "str_nat (snd (server_address scenario_server)) = ''5500''"
    by (simp add: scenario_server_def str_nat_5500)
  note t = startup_prints_url_only [OF main_scenario, of accept_all ?reqs]
  have c3: "stdout_lines ?es = [''http://127.0.0.1:5500/?open=1'']"
    using t p by simp
  have c4: "stdout_lines (?es @ snd (serve_forever accept_all scenario_server ?reqs)) =
      [''http://127.0.0.1:5500/?open=1'']"
    using t c3 by presburger
  show ?thesis using main_scenario c2 c3 c4 by blast
qed

subsection \<open>The listening address\<close>

text \<open>
  Claim C9. For every configuration, whatever the port (0 included), every socket that
  start-up binds is bound to host \<^verbatim>\<open>127.0.0.1\<close>; when the server starts, it has bound
  exactly one, and its address has that host.
\<close>

theorem binds_loopback_only:
  "set (bound_hosts (fst (main e a))) \<subseteq> {''127.0.0.1''}
   \<and> (\<forall>srv. snd (main e a) = Inr srv \<longrightarrow>
         bound_hosts (fst (main e a)) = [''127.0.0.1''] \<and> fst (server_address srv) = ''127.0.0.1'')"
  by (auto simp: main_def run_server_def server_bind_def bound_hosts_def Let_def
      split: if_splits sum.splits option.splits bool.splits)

theorem binds_loopback_only_witness:
  "snd (main scenario_env (scenario_args\<lparr>arg_port := 0\<rparr>)) =
      Inr (scenario_server\<lparr>server_address := (''127.0.0.1'', 49152)\<rparr>)
   \<and> bound_hosts (fst (main scenario_env (scenario_args\<lparr>arg_port := 0\<rparr>))) = [''127.0.0.1'']
   \<and> fst (server_address (scenario_server\<lparr>server_address := (''127.0.0.1'', 49152)\<rparr>)) = ''127.0.0.1''"
proof -
  have m: "snd (main scenario_env (scenario_args\<lparr>arg_port := 0\<rparr>)) =
      Inr (scenario_server\<lparr>server_address := (''127.0.0.1'', 49152)\<rparr>)"
  proof -
    have r: "resolve scenario_env (arg_file scenario_args) = scenario_file"
      by (simp add: scenario_env_def)
    have f: "files scenario_env = scenario_files" by (simp add: scenario_env_def)
    have e1: "path_exists scenario_files scenario_file = Inr True"
      by (simp add: path_exists_def scenario_files_def)
    have e2: "path_exists scenario_files scenario_html = Inr True"
      by (simp add: path_exists_def scenario_files_def scenario_paths)
    have b: "server_bind scenario_env (''127.0.0.1'', 0) = Inr (''127.0.0.1'', 49152)"
      by (simp add: server_bind_def scenario_env_def)
    show ?thesis
      by (simp add: main_def run_server_def r f e1 e2 b scenario_paths scenario_server_def
          scenario_args_fields)
  qed
  from binds_loopback_only [of scenario_env "scenario_args\<lparr>arg_port := 0\<rparr>"] m
  show ?thesis by simp
qed

subsection \<open>Routing\<close>

text \<open>
  Appending a query to a target changes neither the scheme nor the path that
  \<^verbatim>\<open>urlparse\<close> finds, nor whether it raises: each step of \<^verbatim>\<open>urlsplit\<close> stops at
  the question mark or before it.
\<close>

lemma dropWhile_stop: "\<not> p y \<Longrightarrow> dropWhile p (xs @ y # ys) = dropWhile p xs @ y # ys"
  by (induction xs) auto

lemma takeWhile_stop: "\<not> p y \<Longrightarrow> takeWhile p (xs @ y # ys) = takeWhile p xs"
  by (induction xs) auto

lemma takeWhile_absent:
  "c \<notin> set xs \<Longrightarrow> takeWhile (\<lambda>x. x \<noteq> c) (xs @ ys) = xs @ takeWhile (\<lambda>x. x \<noteq> c) ys"
  by (induction xs) auto

lemma clean_query:
  "filter (\<lambda>c. \<not> unsafe_url_byte c) (dropWhile c0_control_or_space (P @ CHR ''?'' # Q)) =
   filter (\<lambda>c. \<not> unsafe_url_byte c) (dropWhile c0_control_or_space P)
     @ CHR ''?'' # filter (\<lambda>c. \<not> unsafe_url_byte c) Q"
proof -
  have a: "\<not> c0_control_or_space CHR ''?''" by (simp add: c0_control_or_space_def)
  have b: "\<not> unsafe_url_byte CHR ''?''" by (simp add: unsafe_url_byte_def)
  show ?thesis using a b by (simp add: dropWhile_stop)
qed

lemma split_scheme_query:
  "split_scheme (U @ CHR ''?'' # R) = (fst (split_scheme U), snd (split_scheme U) @ CHR ''?'' # R)"
proof (cases "CHR '':'' \<in> set U")
  case True
  then have ne: "U \<noteq> []" by auto
  have t: "takeWhile (\<lambda>x. x \<noteq> CHR '':'') (U @ CHR ''?'' # R) = takeWhile (\<lambda>x. x \<noteq> CHR '':'') U"
    using True by (simp add: takeWhile_append1)
  have d: "dropWhile (\<lambda>x. x \<noteq> CHR '':'') (U @ CHR ''?'' # R)
           = dropWhile (\<lambda>x. x \<noteq> CHR '':'') U @ CHR ''?'' # R"
    using True by (simp add: dropWhile_append1)
  have dn: "dropWhile (\<lambda>x. x \<noteq> CHR '':'') U \<noteq> []"
    using True by (simp add: dropWhile_eq_Nil_conv)
  then have ln: "Suc 0 - length (dropWhile (\<lambda>x. x \<noteq> CHR '':'') U) = 0"
    by (cases "dropWhile (\<lambda>x. x \<noteq> CHR '':'') U") simp_all
  show ?thesis using True ne dn
    by (simp add: split_scheme_def before_def after_def t d ln Let_def)
next
  case False
  have t: "takeWhile (\<lambda>x. x \<noteq> CHR '':'') (U @ CHR ''?'' # R)
           = U @ CHR ''?'' # takeWhile (\<lambda>x. x \<noteq> CHR '':'') R"
    using False by (simp add: takeWhile_absent)
  have q: "CHR ''?'' \<notin> set scheme_chars" by (simp add: scheme_chars_def)
  show ?thesis using False q
    by (simp add: split_scheme_def before_def after_def t Let_def)
qed

lemma take2_query: "(take 2 (V @ CHR ''?'' # R) = ''//'') = (take 2 V = ''//'')"
proof (cases V)
  case Nil
  then show ?thesis by simp
next
  case (Cons a V')
  then show ?thesis by (cases V') auto
qed

lemma splitnetloc_query:
  assumes "take 2 V = ''//''"
  shows "splitnetloc (V @ CHR ''?'' # R) = (fst (splitnetloc V), snd (splitnetloc V) @ CHR ''?'' # R)"
proof -
  from assms have "2 \<le> length V" by (cases V; cases "tl V") auto
  then have d: "drop 2 (V @ CHR ''?'' # R) = drop 2 V @ CHR ''?'' # R" by simp
  have n: "netloc_delim CHR ''?''" by (simp add: netloc_delim_def)
  show ?thesis
    using n by (simp add: splitnetloc_def d Let_def takeWhile_stop dropWhile_stop del: drop_append)
qed

lemma path_query:
  "before CHR ''?'' (before CHR ''#'' (W @ CHR ''?'' # R)) = before CHR ''?'' (before CHR ''#'' W)"
proof (cases "CHR ''#'' \<in> set W")
  case True
  then show ?thesis by (simp add: before_def takeWhile_append1)
next
  case False
  then have w: "takeWhile (\<lambda>x. x \<noteq> CHR ''#'') W = W" by (auto simp: takeWhile_eq_all_conv)
  have "takeWhile (\<lambda>x. x \<noteq> CHR ''#'') (W @ CHR ''?'' # R)
          = W @ CHR ''?'' # takeWhile (\<lambda>x. x \<noteq> CHR ''#'') R"
    using False by (simp add: takeWhile_absent)
  then show ?thesis by (simp add: before_def w takeWhile_stop)
qed

lemma split_rest_query:
  "path (split_rest sch nl (W @ CHR ''?'' # R)) = path (split_rest sch nl W)
   \<and> scheme (split_rest sch nl (W @ CHR ''?'' # R)) = scheme (split_rest sch nl W)"
  using path_query [of W R] by (simp add: split_rest_def Let_def)

lemma urlsplit_query:
  "map_sum id (\<lambda>r. (scheme r, path r)) (urlsplit chk (P @ CHR ''?'' # Q)) =
   map_sum id (\<lambda>r. (scheme r, path r)) (urlsplit chk P)"
proof -
  let ?U = "filter (\<lambda>c. \<not> unsafe_url_byte c) (dropWhile c0_control_or_space P)"
  let ?R = "filter (\<lambda>c. \<not> unsafe_url_byte c) Q"
  obtain sch V where sv: "split_scheme ?U = (sch, V)" by (cases "split_scheme ?U")
  then have sv': "split_scheme (?U @ CHR ''?'' # ?R) = (sch, V @ CHR ''?'' # ?R)"
    by (simp add: split_scheme_query)
  show ?thesis
  proof (cases "take 2 V = ''//''")
    case False
    then have f2: "take 2 (V @ CHR ''?'' # ?R) \<noteq> ''//''" by (simp add: take2_query del: take_append)
    show ?thesis using False f2 split_rest_query [of sch "[]" V ?R]
      by (simp add: urlsplit_def clean_query sv sv' Let_def del: take_append)
  next
    case True
    then have t2: "take 2 (V @ CHR ''?'' # ?R) = ''//''" by (simp add: take2_query del: take_append)
    obtain nl W where nw: "splitnetloc V = (nl, W)" by (cases "splitnetloc V")
    then have nw': "splitnetloc (V @ CHR ''?'' # ?R) = (nl, W @ CHR ''?'' # ?R)"
      using splitnetloc_query [OF True, of ?R] by simp
    show ?thesis using True t2 split_rest_query [of sch nl W ?R]
      by (simp add: urlsplit_def clean_query sv sv' nw nw' Let_def del: take_append
          split: option.splits)
  qed
qed

lemma urlparse_query:
  "map_sum id path (urlparse chk (P @ CHR ''?'' # Q)) = map_sum id path (urlparse chk P)"
proof -
  note e = urlsplit_query [of chk P Q]
  show ?thesis
  proof (cases "urlsplit chk P")
    case (Inl x)
    with e have "urlsplit chk (P @ CHR ''?'' # Q) = Inl x"
      by (cases "urlsplit chk (P @ CHR ''?'' # Q)") auto
    with Inl show ?thesis by (simp add: urlparse_def)
  next
    case (Inr r)
    with e obtain r' where r': "urlsplit chk (P @ CHR ''?'' # Q) = Inr r'"
      and s: "scheme r' = scheme r" and p: "path r' = path r"
      by (cases "urlsplit chk (P @ CHR ''?'' # Q)") auto
    show ?thesis by (simp add: urlparse_def Inr r' s p split: prod.splits)
  qed
qed

lemma do_GET_by_path:
  "do_GET chk srv f t =
     (case map_sum id path (urlparse chk t) of
        Inl e \<Rightarrow> Inl e
      | Inr p \<Rightarrow>
          if p = ''/fits.js''
          then serve_static_file srv f (str ''fits.js'') (str ''application/javascript; charset=utf-8'')
          else if p = ''/file'' then serve_fits_file srv f
          else if p \<in> set [''/'', ''/index.html''] then serve_masking_html srv f
          else Inr (send_error 404 ''Not Found''))"
  by (cases "urlparse chk t") (simp_all add: do_GET_def)

lemma request_path_query: "request_path (P @ CHR ''?'' # Q) = request_path P @ CHR ''?'' # Q"
proof (cases "take 2 P = ''//''")
  case True
  then have t: "take 2 (P @ CHR ''?'' # Q) = ''//''"
    by (simp add: take2_query del: take_append)
  have d: "dropWhile (\<lambda>c. c = CHR ''/'') (P @ CHR ''?'' # Q)
        = dropWhile (\<lambda>c. c = CHR ''/'') P @ CHR ''?'' # Q"
    by (rule dropWhile_stop) simp
  show ?thesis unfolding request_path_def if_P [OF True] if_P [OF t] d by simp
next
  case False
  then have t: "take 2 (P @ CHR ''?'' # Q) \<noteq> ''//''"
    by (simp add: take2_query del: take_append)
  show ?thesis unfolding request_path_def if_not_P [OF False] if_not_P [OF t] ..
qed

lemma do_GET_query: "do_GET chk srv f (P @ CHR ''?'' # Q) = do_GET chk srv f P"
proof -
  have "map_sum id path (urlparse chk (P @ CHR ''?'' # Q)) = map_sum id path (urlparse chk P)"
    by (rule urlparse_query)
  then show ?thesis by (simp only: do_GET_by_path)
qed

text \<open>A plain path is left as it is by \<^verbatim>\<open>parse_request\<close>, and is its own path component.\<close>

lemma before_absent: "c \<notin> set s \<Longrightarrow> before c s = s"
  by (induction s) (auto simp: before_def)

lemma after_absent: "c \<notin> set s \<Longrightarrow> after c s = []"
  by (induction s) (auto simp: after_def)

lemma plain_path_parse:
  assumes "plain_path t"
  shows "request_path t = t"
    and "urlparse chk t =
      Inr \<lparr>scheme = [], netloc = [], path = t, params = [], query = [], fragment = []\<rparr>"
proof -
  from assms obtain t' where t: "t = CHR ''/'' # t'"
    by (cases t) (auto simp: plain_path_def)
  from assms have n2: "take 2 t \<noteq> ''//''" by (simp add: plain_path_def)
  from assms have ok: "\<forall>c\<in>set t. c \<noteq> CHR '';'' \<and> c \<noteq> CHR ''?'' \<and> c \<noteq> CHR ''#''
      \<and> \<not> unsafe_url_byte c"
    by (auto simp: plain_path_def list_all_iff)
  show "request_path t = t" using n2 by (simp add: request_path_def)
  have c: "dropWhile c0_control_or_space t = t"
    by (simp add: t c0_control_or_space_def)
  have fl: "filter (\<lambda>c. \<not> unsafe_url_byte c) t = t"
    using ok by (simp add: filter_id_conv)
  have sc: "split_scheme t = ([], t)"
    by (simp add: split_scheme_def t ascii_alpha_def Let_def)
  have nh: "CHR ''#'' \<notin> set t" using ok by auto
  have nq: "CHR ''?'' \<notin> set t" using ok by auto
  note bh = before_absent [OF nh] and bq = before_absent [OF nq]
    and ah = after_absent [OF nh] and aq = after_absent [OF nq]
  have sr: "split_rest [] [] t =
      \<lparr>scheme = [], netloc = [], path = t, params = [], query = [], fragment = []\<rparr>"
    by (simp add: split_rest_def Let_def bh bq ah aq)
  have us: "urlsplit chk t =
      Inr \<lparr>scheme = [], netloc = [], path = t, params = [], query = [], fragment = []\<rparr>"
    using n2 by (simp add: urlsplit_def c fl sc sr)
  have np: "CHR '';'' \<notin> set t" using ok by auto
  show "urlparse chk t =
      Inr \<lparr>scheme = [], netloc = [], path = t, params = [], query = [], fragment = []\<rparr>"
    using np by (simp add: urlparse_def us)
qed

lemma urlparse_file_params:
  "urlparse chk ''/file;x'' =
     Inr \<lparr>scheme = [], netloc = [], path = ''/file'', params = ''x'', query = [], fragment = []\<rparr>"
  by (simp add: urlparse_defs)

text \<open>
  Claim C5, as stated: routing is by exact match on the path of the request URL, and every
  path outside \<^verbatim>\<open>/fits.js\<close>, \<^verbatim>\<open>/file\<close>, \<^verbatim>\<open>/\<close>, \<^verbatim>\<open>/index.html\<close> is answered
  with 404. It fails for \<^verbatim>\<open>/file;x\<close>: \<^verbatim>\<open>urlparse\<close> takes \<^verbatim>\<open>;x\<close> off the last
  segment as its parameters, the path it returns is \<^verbatim>\<open>/file\<close>, and the target file is
  served. It fails for \<^verbatim>\<open>//file\<close> too, which \<^verbatim>\<open>parse_request\<close> turns into
  \<^verbatim>\<open>/file\<close>.
\<close>

theorem params_suffix_routed_counterexample:
  "''/file;x'' \<notin> {''/fits.js'', ''/file'', ''/'', ''/index.html''}
   \<and> handle_one_request accept_all scenario_server scenario_files ''GET'' ''/file;x'' =
       (Inr (Response 200
         [(''Content-Type'', ''application/octet-stream''), (''Cache-Control'', ''no-store''),
          (''Content-Length'', ''3''), (''X-Masking-File-Name'', ''a.fits'')] [0x53, 0x49, 0x4D]), [])
   \<and> ''//file'' \<notin> {''/fits.js'', ''/file'', ''/'', ''/index.html''}
   \<and> handle_one_request accept_all scenario_server scenario_files ''GET'' ''//file'' =
       (Inr (Response 200
         [(''Content-Type'', ''application/octet-stream''), (''Cache-Control'', ''no-store''),
          (''Content-Length'', ''3''), (''X-Masking-File-Name'', ''a.fits'')] [0x53, 0x49, 0x4D]), [])"
proof -
  have p: "do_GET accept_all scenario_server scenario_files ''/file;x'' =
        do_GET accept_all scenario_server scenario_files ''/file''"
    by (simp add: do_GET_def urlparse_file_params urlparse_file)
  have r1: "request_path ''/file;x'' = ''/file;x''" by (simp add: request_path_def)
  have r2: "request_path ''//file'' = ''/file''" by (simp add: request_path_def)
  show ?thesis by (simp add: handle_GET r1 r2 p get_file_scenario)
qed

text \<open>
  Claim C5, amended. Routing looks only at the path that \<^verbatim>\<open>urlparse\<close> returns for
  \<^verbatim>\<open>self.path\<close>, which is the request target with two or more leading slashes reduced
  to one. For every target \<open>P\<close> and every query \<open>Q\<close>, \<^verbatim>\<open>GET\<close> on \<open>P?Q\<close> is answered
  as \<^verbatim>\<open>GET\<close> on \<open>P\<close> is. Every target for which that path is none of
  \<^verbatim>\<open>/fits.js\<close>, \<^verbatim>\<open>/file\<close>, \<^verbatim>\<open>/\<close>, \<^verbatim>\<open>/index.html\<close> is answered with 404; and
  so is, in particular, every plain path (one slash at its start, no \<^verbatim>\<open>;\<close>,
  \<^verbatim>\<open>?\<close>, \<^verbatim>\<open>#\<close>, tab, carriage return or line feed) that is none of the four.
\<close>

theorem routing_by_path_only:
  "handle_one_request chk srv f ''GET'' (P @ ''?'' @ Q) = handle_one_request chk srv f ''GET'' P
   \<and> (plain_path t \<and> t \<notin> {''/fits.js'', ''/file'', ''/'', ''/index.html''}
        \<longrightarrow> handle_one_request chk srv f ''GET'' t = (Inr (send_error 404 ''Not Found''), []))
   \<and> (\<forall>parsed. urlparse chk (request_path t) = Inr parsed
          \<and> path parsed \<notin> {''/fits.js'', ''/file'', ''/'', ''/index.html''}
        \<longrightarrow> handle_one_request chk srv f ''GET'' t = (Inr (send_error 404 ''Not Found''), []))"
proof -
  have a: "handle_one_request chk srv f ''GET'' (P @ ''?'' @ Q)
           = handle_one_request chk srv f ''GET'' P"
    by (simp add: handle_GET request_path_query do_GET_query)
  have c: "\<forall>parsed. urlparse chk (request_path t) = Inr parsed
          \<and> path parsed \<notin> {''/fits.js'', ''/file'', ''/'', ''/index.html''}
        \<longrightarrow> handle_one_request chk srv f ''GET'' t = (Inr (send_error 404 ''Not Found''), [])"
    by (simp add: handle_GET do_GET_def)
  have b: "plain_path t \<and> t \<notin> {''/fits.js'', ''/file'', ''/'', ''/index.html''}
        \<longrightarrow> handle_one_request chk srv f ''GET'' t = (Inr (send_error 404 ''Not Found''), [])"
  proof
    assume h: "plain_path t \<and> t \<notin> {''/fits.js'', ''/file'', ''/'', ''/index.html''}"
    then have pl: "plain_path t" by simp
    from h show "handle_one_request chk srv f ''GET'' t = (Inr (send_error 404 ''Not Found''), [])"
      by (simp add: handle_GET plain_path_parse [OF pl] do_GET_def)
  qed
  from a b c show ?thesis by blast
qed

theorem routing_by_path_only_witness:
  "plain_path ''/anything-unknown''
   \<and> ''/anything-unknown'' \<notin> {''/fits.js'', ''/file'', ''/'', ''/index.html''}
   \<and> urlparse accept_all (request_path ''/anything-unknown'') =
     Inr \<lparr>scheme = [], netloc = [], path = ''/anything-unknown'', params = [], query = [],
          fragment = []\<rparr>
   \<and> handle_one_request accept_all scenario_server scenario_files ''GET'' ''/anything-unknown'' =
       (Inr (ErrorResponse 404 ''Not Found''), [])
   \<and> handle_one_request accept_all scenario_server scenario_files ''GET'' ''/file?x=1'' =
       handle_one_request accept_all scenario_server scenario_files ''GET'' ''/file''"
proof -
  have pl: "plain_path ''/anything-unknown''"
    by (simp add: plain_path_def unsafe_url_byte_def)
  have n: "''/anything-unknown'' \<notin> {''/fits.js'', ''/file'', ''/'', ''/index.html''}" by simp
  have u: "urlparse accept_all (request_path ''/anything-unknown'') =
     Inr \<lparr>scheme = [], netloc = [], path = ''/anything-unknown'', params = [], query = [],
          fragment = []\<rparr>"
    by (simp add: plain_path_parse [OF pl])
  note t = routing_by_path_only [where chk = accept_all and srv = scenario_server
      and f = scenario_files and P = "''/file''" and Q = "''x=1''" and t = "''/anything-unknown''"]
  have q: "handle_one_request accept_all scenario_server scenario_files ''GET'' ''/file?x=1'' =
       handle_one_request accept_all scenario_server scenario_files ''GET'' ''/file''"
    using t by simp
  have e: "handle_one_request accept_all scenario_server scenario_files ''GET'' ''/anything-unknown'' =
       (Inr (ErrorResponse 404 ''Not Found''), [])"
    using t pl n by (simp add: send_error_def)
  show ?thesis using pl n u e q by blast
qed

end
